theory Spec2Isabelle
  imports Complex_Main
begin

section \<open>Python values, as the provider's JSON payloads carry them\<close>

text \<open>
  The two source files are \<^verbatim>\<open>stock_mcp/stock_formatter.py\<close> (\<^verbatim>\<open>format_data\<close>) and
  \<^verbatim>\<open>stock_mcp/server.py\<close> (\<^verbatim>\<open>_fetch_current_stock_price\<close>,
  \<^verbatim>\<open>_fetch_historical_stock_price\<close>). Both handle untyped JSON values, so the model
  starts with the Python values a decoded JSON document consists of.

  A Python \<^verbatim>\<open>str\<close> is a \<^typ>\<open>string\<close>; code points beyond ASCII appear as their UTF-8
  bytes and are carried through unchanged (case mapping, white space and digit classes are
  those of ASCII). A Python \<^verbatim>\<open>float\<close> is an IEEE double: \<open>Fin neg m e\<close> stands for
  \<open>(-1)^neg * m * 2^e\<close> with \<open>0 \<le> m\<close>, so that \<open>-0.0\<close> is \<open>Fin True 0 0\<close>.
  A \<^verbatim>\<open>dict\<close> keeps its insertion order, which \<^verbatim>\<open>str\<close> of a dict shows: it is an
  association list, looked up with \<^const>\<open>map_of\<close>.
\<close>

datatype pyfloat = Fin bool int int | Infty bool | NaN

datatype pyval =
    PNone
  | PBool bool
  | PInt int
  | PFloat pyfloat
  | PStr string
  | PList "pyval list"
  | PDict "(string \<times> pyval) list"

text \<open>
  Exceptions are values. Only subclasses of \<^verbatim>\<open>Exception\<close> are modelled; \<open>OtherError\<close>
  stands for whatever else the provider's client library raises. The string is what
  \<^verbatim>\<open>str(e)\<close> returns, worded as CPython 3.11 does.
\<close>

datatype exc_kind = ValueError | TypeError | OverflowError | AttributeError | KeyError | OtherError

datatype pyexc = Exc exc_kind string

fun exc_kind_of :: "pyexc \<Rightarrow> exc_kind" where
  "exc_kind_of (Exc k msg) = k"

fun exc_str :: "pyexc \<Rightarrow> string" where
  "exc_str (Exc k msg) = msg"

subsection \<open>Characters and decimal numerals\<close>

definition is_space :: "char \<Rightarrow> bool" where
  "is_space c = (c \<in> set [CHR 0x09, CHR 0x0A, CHR 0x0B, CHR 0x0C, CHR 0x0D, CHR 0x20])"

definition is_digit :: "char \<Rightarrow> bool" where
  "is_digit c = (c \<in> set ''0123456789'')"

definition lower_letters :: string where
  "lower_letters = ''abcdefghijklmnopqrstuvwxyz''"

definition upper_letters :: string where
  "upper_letters = ''ABCDEFGHIJKLMNOPQRSTUVWXYZ''"

definition upper_char :: "char \<Rightarrow> char" where
  "upper_char c = (case map_of (zip lower_letters upper_letters) c of Some u \<Rightarrow> u | None \<Rightarrow> c)"

definition lower_char :: "char \<Rightarrow> char" where
  "lower_char c = (case map_of (zip upper_letters lower_letters) c of Some l \<Rightarrow> l | None \<Rightarrow> c)"

text \<open>\<^verbatim>\<open>str.upper()\<close>\<close>

definition str_upper :: "string \<Rightarrow> string" where
  "str_upper s = map upper_char s"

definition str_lower :: "string \<Rightarrow> string" where
  "str_lower s = map lower_char s"

text \<open>\<^verbatim>\<open>sub in s\<close> for two strings.\<close>

fun is_substring :: "string \<Rightarrow> string \<Rightarrow> bool" where
  "is_substring sub [] = (sub = [])"
| "is_substring sub (c # cs) = (take (length sub) (c # cs) = sub \<or> is_substring sub cs)"

definition digit_val :: "char \<Rightarrow> int" where
  "digit_val c = (case map_of (zip ''0123456789'' [0, 1, 2, 3, 4, 5, 6, 7, 8, 9]) c of
     Some d \<Rightarrow> d | None \<Rightarrow> 0)"

definition digit_char :: "int \<Rightarrow> char" where
  "digit_char d = ''0123456789abcdef'' ! nat d"

definition digits_val :: "string \<Rightarrow> int" where
  "digits_val ds = foldl (\<lambda>a c. 10 * a + digit_val c) 0 ds"

function dec_pos :: "int \<Rightarrow> string" where
  "dec_pos n = (if n < 10 then [digit_char n] else dec_pos (n div 10) @ [digit_char (n mod 10)])"
  by pat_completeness auto
termination
  by (relation "measure nat") auto

declare dec_pos.simps [simp del]

text \<open>\<^verbatim>\<open>str(i)\<close> of an int.\<close>

definition str_int :: "int \<Rightarrow> string" where
  "str_int i = (if i < 0 then CHR ''-'' # dec_pos (- i) else dec_pos i)"

subsection \<open>Doubles: rounding, conversion and formatting\<close>

function bit_length :: "int \<Rightarrow> int" where
  "bit_length n = (if n \<le> 0 then 0 else 1 + bit_length (n div 2))"
  by pat_completeness auto
termination
  by (relation "measure nat") auto

declare bit_length.simps [simp del]

text \<open>The quotient \<open>n / d\<close> of two non-negative integers, rounded half to even.\<close>

definition round_half_even :: "int \<Rightarrow> int \<Rightarrow> int" where
  "round_half_even n d =
     (let q = n div d; r = n mod d
      in if d < 2 * r \<or> (2 * r = d \<and> odd q) then q + 1 else q)"

text \<open>
  The double nearest to the positive rational \<open>num / den\<close> (ties to even), as mantissa and
  binary exponent; \<open>None\<close> when it rounds beyond the largest double. Mantissas have 53 bits,
  the least exponent is \<open>-1074\<close> (subnormal numbers), the greatest \<open>971\<close>.
\<close>

definition nearest_double :: "int \<Rightarrow> int \<Rightarrow> (int \<times> int) option" where
  "nearest_double num den =
     (if num = 0 then Some (0, 0)
      else
        let k0 = bit_length num - bit_length den;
            k = (if (if 0 \<le> k0 then den * 2 ^ nat k0 \<le> num else den \<le> num * 2 ^ nat (- k0))
                 then k0 else k0 - 1);
            e = max (k - 52) (- 1074);
            m = (if 0 \<le> e then round_half_even num (den * 2 ^ nat e)
                 else round_half_even (num * 2 ^ nat (- e)) den);
            m' = (if m = 2 ^ 53 then 2 ^ 52 else m);
            e' = (if m = 2 ^ 53 then e + 1 else e)
        in if 971 < e' then None else Some (m', e'))"

text \<open>\<^verbatim>\<open>float(i)\<close> of an int: \<^verbatim>\<open>OverflowError\<close> beyond the range of doubles.\<close>

definition float_of_int :: "int \<Rightarrow> pyexc + pyfloat" where
  "float_of_int i =
     (case nearest_double \<bar>i\<bar> 1 of
        None \<Rightarrow> Inl (Exc OverflowError ''int too large to convert to float'')
      | Some (m, e) \<Rightarrow> Inr (Fin (i < 0) m e))"

text \<open>
  \<^verbatim>\<open>float(s)\<close> of a string. Underscores may stand between two digits and are dropped
  first; white space around the literal is stripped; the literal is an optional sign and
  then \<^verbatim>\<open>inf\<close>, \<^verbatim>\<open>infinity\<close>, \<^verbatim>\<open>nan\<close> (in any case) or a decimal number with an
  optional exponent. \<open>None\<close> is \<^verbatim>\<open>ValueError\<close>. A decimal beyond the range of doubles
  is an infinity, not an error.
\<close>

fun drop_underscores :: "char \<Rightarrow> string \<Rightarrow> string option" where
  "drop_underscores prev [] = (if prev = CHR ''_'' then None else Some [])"
| "drop_underscores prev (c # cs) =
     (if c = CHR ''_'' then (if is_digit prev then drop_underscores c cs else None)
      else if prev = CHR ''_'' \<and> \<not> is_digit c then None
      else map_option ((#) c) (drop_underscores c cs))"

definition strip :: "string \<Rightarrow> string" where
  "strip s = rev (dropWhile is_space (rev (dropWhile is_space s)))"

definition split_sign :: "string \<Rightarrow> bool \<times> string" where
  "split_sign s =
     (case s of
        [] \<Rightarrow> (False, [])
      | c # t \<Rightarrow> if c = CHR ''-'' then (True, t) else if c = CHR ''+'' then (False, t) else (False, s))"

text \<open>A decimal literal as \<open>(n, x)\<close>, standing for \<open>n * 10^x\<close>.\<close>

definition parse_decimal :: "string \<Rightarrow> (int \<times> int) option" where
  "parse_decimal s =
     (let ip = takeWhile is_digit s;
          r1 = dropWhile is_digit s;
          has_point = (r1 \<noteq> [] \<and> hd r1 = CHR ''.'');
          fp = (if has_point then takeWhile is_digit (tl r1) else []);
          r2 = (if has_point then dropWhile is_digit (tl r1) else r1);
          n = digits_val (ip @ fp);
          x = - int (length fp)
      in if ip = [] \<and> fp = [] then None
         else if r2 = [] then Some (n, x)
         else if hd r2 = CHR ''e'' \<or> hd r2 = CHR ''E'' then
           (let (eneg, r3) = split_sign (tl r2)
            in if r3 = [] \<or> \<not> list_all is_digit r3 then None
               else Some (n, x + (if eneg then - digits_val r3 else digits_val r3)))
         else None)"

definition float_of_str :: "string \<Rightarrow> pyfloat option" where
  "float_of_str s0 =
     (case drop_underscores CHR 0x00 s0 of
        None \<Rightarrow> None
      | Some s1 \<Rightarrow>
          let (neg, body) = split_sign (strip s1);
              low = str_lower body
          in if low = ''inf'' \<or> low = ''infinity'' then Some (Infty neg)
             else if low = ''nan'' then Some NaN
             else
               (case parse_decimal body of
                  None \<Rightarrow> None
                | Some (n, x) \<Rightarrow>
                    (case (if 0 \<le> x then nearest_double (n * 10 ^ nat x) 1
                           else nearest_double n (10 ^ nat (- x))) of
                       None \<Rightarrow> Some (Infty neg)
                     | Some (m, e) \<Rightarrow> Some (Fin neg m e))))"

text \<open>\<^verbatim>\<open>x >= 0\<close> on a float: true of \<open>-0.0\<close>, false of \<^verbatim>\<open>nan\<close>.\<close>

fun float_ge0 :: "pyfloat \<Rightarrow> bool" where
  "float_ge0 (Fin neg m e) = (\<not> neg \<or> m = 0)"
| "float_ge0 (Infty neg) = (\<not> neg)"
| "float_ge0 NaN = False"

text \<open>
  \<^verbatim>\<open>format(x, '.2f')\<close>: the exact value is rounded half to even to a whole number of
  hundredths; the sign is that of the float, also when the digits are all zero.
\<close>

definition hundredths :: "int \<Rightarrow> int \<Rightarrow> int" where
  "hundredths m e =
     (if 0 \<le> e then m * 2 ^ nat e * 100 else round_half_even (m * 100) (2 ^ nat (- e)))"

definition fixed2 :: "int \<Rightarrow> string" where
  "fixed2 h = dec_pos (h div 100) @ ''.'' @ [digit_char (h mod 100 div 10), digit_char (h mod 10)]"

fun format_2f :: "pyfloat \<Rightarrow> string" where
  "format_2f (Fin neg m e) = (if neg then ''-'' else '''') @ fixed2 (hundredths m e)"
| "format_2f (Infty neg) = (if neg then ''-inf'' else ''inf'')"
| "format_2f NaN = ''nan''"

text \<open>
  \<^verbatim>\<open>repr(x)\<close> of a float: the shortest decimal numeral that reads back as the same
  double and, among those of that length, the one nearest to it. The numerals that read
  back as \<open>x\<close> are those between the midpoints to its two neighbours (the midpoints
  included when the mantissa is even); below a power of two the lower neighbour is half as
  far. Seventeen significant digits always suffice.
\<close>

definition pow_rat :: "int \<Rightarrow> int \<Rightarrow> rat" where
  "pow_rat b k = (if 0 \<le> k then of_int (b ^ nat k) else 1 / of_int (b ^ nat (- k)))"

text \<open>For \<open>0 < x\<close>, the \<open>d\<close> with \<open>10^d \<le> x < 10^(d+1)\<close>.\<close>

definition decimal_magnitude :: "rat \<Rightarrow> int" where
  "decimal_magnitude x =
     (if 1 \<le> x then int (length (dec_pos \<lfloor>x\<rfloor>)) - 1
      else - int (length (dec_pos (\<lceil>1 / x\<rceil> - 1))))"

definition in_interval :: "rat \<Rightarrow> rat \<Rightarrow> bool \<Rightarrow> rat \<Rightarrow> bool" where
  "in_interval lo hi incl c = (if incl then lo \<le> c \<and> c \<le> hi else lo < c \<and> c < hi)"

text \<open>The numeral as \<open>(d, k)\<close>, standing for \<open>d * 10^k\<close>, trying 1, 2, ... digits.\<close>

fun shortest_digits :: "rat \<Rightarrow> rat \<Rightarrow> rat \<Rightarrow> bool \<Rightarrow> int \<Rightarrow> nat list \<Rightarrow> int \<times> int" where
  "shortest_digits x lo hi incl dm [] = (0, 0)"
| "shortest_digits x lo hi incl dm (p # ps) =
     (let k = dm - int p + 1;
          s = x / pow_rat 10 k;
          a = \<lfloor>s\<rfloor>;
          b = a + 1;
          a_ok = in_interval lo hi incl (of_int a * pow_rat 10 k);
          b_ok = in_interval lo hi incl (of_int b * pow_rat 10 k);
          a_nearer = (s - of_int a < of_int b - s \<or> (s - of_int a = of_int b - s \<and> even a))
      in if a_ok \<and> (a_nearer \<or> \<not> b_ok) then (a, k)
         else if b_ok then (b, k)
         else shortest_digits x lo hi incl dm ps)"

text \<open>
  The layout of \<^verbatim>\<open>repr\<close>: \<open>ds\<close> are the significant digits and the value is
  \<open>0.ds * 10^decpt\<close>; exponent notation is used when \<open>decpt \<le> -4\<close> or \<open>16 < decpt\<close>.
\<close>

definition repr_layout :: "string \<Rightarrow> int \<Rightarrow> string" where
  "repr_layout ds decpt =
     (let n = int (length ds)
      in if decpt \<le> - 4 \<or> 16 < decpt then
           [hd ds] @ (if 1 < n then ''.'' @ tl ds else [])
           @ ''e'' @ (if decpt - 1 < 0 then ''-'' else ''+'')
           @ (if \<bar>decpt - 1\<bar> < 10 then ''0'' else []) @ dec_pos \<bar>decpt - 1\<bar>
         else if decpt \<le> 0 then ''0.'' @ replicate (nat (- decpt)) CHR ''0'' @ ds
         else if n \<le> decpt then ds @ replicate (nat (decpt - n)) CHR ''0'' @ ''.0''
         else take (nat decpt) ds @ ''.'' @ drop (nat decpt) ds)"

definition repr_finite :: "int \<Rightarrow> int \<Rightarrow> string" where
  "repr_finite m e =
     (let x = of_int m * pow_rat 2 e;
          ce = max (bit_length m + e - 53) (- 1074);
          ulp = pow_rat 2 ce;
          below_power = (m = 2 ^ nat (bit_length m - 1) \<and> - 1074 < ce);
          lo = x - (if below_power then ulp / 4 else ulp / 2);
          hi = x + ulp / 2;
          incl = even \<lfloor>x / ulp\<rfloor>;
          (d, k) = shortest_digits x lo hi incl (decimal_magnitude x) [1 ..< 18];
          all_ds = dec_pos d;
          ds = rev (dropWhile (\<lambda>c. c = CHR ''0'') (rev all_ds))
      in repr_layout ds (int (length all_ds) + k))"

fun float_repr :: "pyfloat \<Rightarrow> string" where
  "float_repr (Fin neg m e) =
     (if neg then ''-'' else []) @ (if m = 0 then ''0.0'' else repr_finite m e)"
| "float_repr (Infty neg) = (if neg then ''-inf'' else ''inf'')"
| "float_repr NaN = ''nan''"

text \<open>Exact comparison of a float with an int, as \<^verbatim>\<open>==\<close> does it.\<close>

fun float_eq_int :: "pyfloat \<Rightarrow> int \<Rightarrow> bool" where
  "float_eq_int (Fin neg m e) n =
     (let s = (if neg then - m else m)
      in if 0 \<le> e then s * 2 ^ nat e = n else s = n * 2 ^ nat (- e))"
| "float_eq_int (Infty neg) n = False"
| "float_eq_int NaN n = False"

subsection \<open>\<^verbatim>\<open>repr\<close> and \<^verbatim>\<open>str\<close>\<close>

text \<open>
  \<^verbatim>\<open>repr(s)\<close> of a string: in single quotes, unless it holds a single quote and no
  double quote; the quote and the backslash are escaped, control characters are written
  as \<^verbatim>\<open>\t\<close>, \<^verbatim>\<open>\n\<close>, \<^verbatim>\<open>\r\<close> or \<^verbatim>\<open>\xhh\<close>.
\<close>

definition repr_char :: "char \<Rightarrow> char \<Rightarrow> string" where
  "repr_char q c =
     (if c = q \<or> c = CHR 0x5C then [CHR 0x5C, c]
      else if c = CHR 0x09 then [CHR 0x5C, CHR ''t'']
      else if c = CHR 0x0A then [CHR 0x5C, CHR ''n'']
      else if c = CHR 0x0D then [CHR 0x5C, CHR ''r'']
      else if (of_char c :: nat) < 32 \<or> c = CHR 0x7F then
        [CHR 0x5C, CHR ''x'', digit_char (int (of_char c div 16)), digit_char (int (of_char c mod 16))]
      else [c])"

definition repr_str :: "string \<Rightarrow> string" where
  "repr_str s =
     (let q = (if CHR 0x27 \<in> set s \<and> CHR 0x22 \<notin> set s then CHR 0x22 else CHR 0x27)
      in [q] @ concat (map (repr_char q) s) @ [q])"

fun py_repr :: "pyval \<Rightarrow> string"
  and repr_list :: "pyval list \<Rightarrow> string"
  and repr_items :: "(string \<times> pyval) list \<Rightarrow> string" where
  "py_repr PNone = ''None''"
| "py_repr (PBool b) = (if b then ''True'' else ''False'')"
| "py_repr (PInt i) = str_int i"
| "py_repr (PFloat f) = float_repr f"
| "py_repr (PStr s) = repr_str s"
| "py_repr (PList xs) = ''['' @ repr_list xs @ '']''"
| "py_repr (PDict kvs) = ''{'' @ repr_items kvs @ ''}''"
| "repr_list [] = []"
| "repr_list (x # xs) = py_repr x @ (if xs = [] then [] else '', '' @ repr_list xs)"
| "repr_items [] = []"
| "repr_items ((k, v) # kvs) =
     repr_str k @ '': '' @ py_repr v @ (if kvs = [] then [] else '', '' @ repr_items kvs)"

text \<open>\<^verbatim>\<open>str(v)\<close>, which is also what \<^verbatim>\<open>f"{v}"\<close> inserts.\<close>

definition py_str :: "pyval \<Rightarrow> string" where
  "py_str v = (case v of PStr s \<Rightarrow> s | _ \<Rightarrow> py_repr v)"

subsection \<open>Operations on values\<close>

fun type_name :: "pyval \<Rightarrow> string" where
  "type_name PNone = ''NoneType''"
| "type_name (PBool b) = ''bool''"
| "type_name (PInt i) = ''int''"
| "type_name (PFloat f) = ''float''"
| "type_name (PStr s) = ''str''"
| "type_name (PList xs) = ''list''"
| "type_name (PDict kvs) = ''dict''"

definition quoted :: "string \<Rightarrow> string" where
  "quoted s = [CHR 0x27] @ s @ [CHR 0x27]"

text \<open>\<^verbatim>\<open>bool(v)\<close>, which decides \<^verbatim>\<open>if not v\<close>.\<close>

fun py_truthy :: "pyval \<Rightarrow> bool" where
  "py_truthy PNone = False"
| "py_truthy (PBool b) = b"
| "py_truthy (PInt i) = (i \<noteq> 0)"
| "py_truthy (PFloat f) = (case f of Fin neg m e \<Rightarrow> m \<noteq> 0 | Infty neg \<Rightarrow> True | NaN \<Rightarrow> True)"
| "py_truthy (PStr s) = (s \<noteq> [])"
| "py_truthy (PList xs) = (xs \<noteq> [])"
| "py_truthy (PDict kvs) = (kvs \<noteq> [])"

text \<open>\<^verbatim>\<open>v == s\<close> for a string literal \<open>s\<close>, and \<^verbatim>\<open>v == n\<close> for an int literal \<open>n\<close>.\<close>

fun py_eq_str :: "pyval \<Rightarrow> string \<Rightarrow> bool" where
  "py_eq_str (PStr t) s = (t = s)"
| "py_eq_str v s = False"

fun py_eq_int :: "pyval \<Rightarrow> int \<Rightarrow> bool" where
  "py_eq_int (PInt i) n = (i = n)"
| "py_eq_int (PBool b) n = ((if b then 1 else 0) = n)"
| "py_eq_int (PFloat f) n = float_eq_int f n"
| "py_eq_int v n = False"

text \<open>\<^verbatim>\<open>isinstance(v, (str, int, float))\<close>; \<^verbatim>\<open>bool\<close> is a subclass of \<^verbatim>\<open>int\<close>.\<close>

fun is_str_int_float :: "pyval \<Rightarrow> bool" where
  "is_str_int_float (PStr s) = True"
| "is_str_int_float (PInt i) = True"
| "is_str_int_float (PBool b) = True"
| "is_str_int_float (PFloat f) = True"
| "is_str_int_float v = False"

text \<open>\<^verbatim>\<open>float(v)\<close>\<close>

fun py_float :: "pyval \<Rightarrow> pyexc + pyfloat" where
  "py_float (PFloat f) = Inr f"
| "py_float (PInt i) = float_of_int i"
| "py_float (PBool b) = float_of_int (if b then 1 else 0)"
| "py_float (PStr s) =
     (case float_of_str s of
        None \<Rightarrow> Inl (Exc ValueError (''could not convert string to float: '' @ repr_str s))
      | Some f \<Rightarrow> Inr f)"
| "py_float v =
     Inl (Exc TypeError
       (''float() argument must be a string or a real number, not '' @ quoted (type_name v)))"

text \<open>\<^verbatim>\<open>d.get(k, dflt)\<close> on the items of a dict.\<close>

definition dict_get :: "(string \<times> pyval) list \<Rightarrow> string \<Rightarrow> pyval \<Rightarrow> pyval" where
  "dict_get kvs k dflt = (case map_of kvs k of Some v \<Rightarrow> v | None \<Rightarrow> dflt)"

text \<open>\<^verbatim>\<open>k in v\<close> and \<^verbatim>\<open>v[k]\<close> for a string literal \<open>k\<close> and any value \<open>v\<close>.\<close>

fun py_contains :: "string \<Rightarrow> pyval \<Rightarrow> pyexc + bool" where
  "py_contains k (PDict kvs) = Inr (map_of kvs k \<noteq> None)"
| "py_contains k (PList xs) = Inr (list_ex (\<lambda>x. py_eq_str x k) xs)"
| "py_contains k (PStr s) = Inr (is_substring k s)"
| "py_contains k v =
     Inl (Exc TypeError (''argument of type '' @ quoted (type_name v) @ '' is not iterable''))"

fun py_getitem :: "pyval \<Rightarrow> string \<Rightarrow> pyexc + pyval" where
  "py_getitem (PDict kvs) k =
     (case map_of kvs k of Some v \<Rightarrow> Inr v | None \<Rightarrow> Inl (Exc KeyError (repr_str k)))"
| "py_getitem (PList xs) k = Inl (Exc TypeError ''list indices must be integers or slices, not str'')"
| "py_getitem (PStr s) k =
     Inl (Exc TypeError (''string indices must be integers, not '' @ quoted ''str''))"
| "py_getitem v k = Inl (Exc TypeError (quoted (type_name v) @ '' object is not subscriptable''))"

section \<open>The formatter: \<^verbatim>\<open>stock_formatter.format_data\<close>\<close>

definition nl :: string where
  "nl = [CHR 0x0A]"

text \<open>The two direction glyphs, U+1F4C8 and U+1F4C9, in UTF-8.\<close>

definition up_glyph :: string where
  "up_glyph = [CHR 0xF0, CHR 0x9F, CHR 0x93, CHR 0x88]"

definition down_glyph :: string where
  "down_glyph = [CHR 0xF0, CHR 0x9F, CHR 0x93, CHR 0x89]"

definition separator :: string where
  "separator = replicate 40 CHR ''=''"

text \<open>The historical block, lines 27 to 44 of the source.\<close>

definition historical_text :: "string \<Rightarrow> (string \<times> pyval) list \<Rightarrow> string \<Rightarrow> string \<Rightarrow> string" where
  "historical_text ts data symbol date =
     (let close_price = dict_get data ''close'' (PStr ''N/A'');
          high = dict_get data ''high'' (PStr ''N/A'');
          low = dict_get data ''low'' (PStr ''N/A'');
          open_price = dict_get data ''open'' (PStr ''N/A'');
          volume = dict_get data ''volume'' (PStr ''N/A'');
          actual_date = dict_get data ''datetime'' (PStr date)
      in ''Stock Historical Data (EOD): '' @ symbol @ nl
         @ separator @ nl
         @ ''Date: '' @ py_str actual_date @ nl
         @ ''Opening Price: $'' @ py_str open_price @ nl
         @ ''Closing Price: $'' @ py_str close_price @ nl
         @ ''Day High: $'' @ py_str high @ nl
         @ ''Day Low: $'' @ py_str low @ nl
         @ ''Volume: '' @ py_str volume @ nl
         @ ''Retrieved at: '' @ ts @ nl)"

text \<open>
  Lines 52 to 67: the direction glyph and the two rendered numbers, as
  \<open>(direction, change_str, percent_str)\<close>. Both conversions stand in one \<^verbatim>\<open>try\<close>, whose
  handler catches \<^verbatim>\<open>ValueError\<close> and \<^verbatim>\<open>TypeError\<close> only.
\<close>

definition on_conversion_error :: "pyval \<Rightarrow> pyval \<Rightarrow> pyexc \<Rightarrow> pyexc + string \<times> string \<times> string" where
  "on_conversion_error change percent_change ex =
     (if exc_kind_of ex = ValueError \<or> exc_kind_of ex = TypeError
      then Inr ([], py_str change, py_str percent_change)
      else Inl ex)"

definition change_parts :: "pyval \<Rightarrow> pyval \<Rightarrow> pyexc + string \<times> string \<times> string" where
  "change_parts change percent_change =
     (if is_str_int_float change \<and> \<not> py_eq_str change ''N/A'' then
        (case py_float change of
           Inl ex \<Rightarrow> on_conversion_error change percent_change ex
         | Inr change_val \<Rightarrow>
             (case py_float percent_change of
                Inl ex \<Rightarrow> on_conversion_error change percent_change ex
              | Inr percent_val \<Rightarrow>
                  Inr (if float_ge0 change_val then up_glyph else down_glyph,
                       (if float_ge0 change_val then ''+'' else []) @ format_2f change_val,
                       (if float_ge0 percent_val then ''+'' else []) @ format_2f percent_val @ ''%'')))
      else Inr ([], ''N/A'', ''N/A''))"

definition change_line :: "string \<times> string \<times> string \<Rightarrow> string" where
  "change_line parts =
     (case parts of (direction, change_str, percent_str) \<Rightarrow>
        ''Change: '' @ change_str @ '' ('' @ percent_str @ '') '' @ direction)"

text \<open>The current-price block, lines 69 to 80.\<close>

definition current_text :: "string \<Rightarrow> (string \<times> pyval) list \<Rightarrow> string \<Rightarrow> string \<times> string \<times> string \<Rightarrow> string" where
  "current_text ts data symbol parts =
     (let price = dict_get data ''close'' (dict_get data ''price'' (PStr ''N/A''))
      in ''Stock Price Data: '' @ symbol @ nl
         @ separator @ nl
         @ ''Current Price: $'' @ py_str price @ nl
         @ change_line parts @ nl
         @ ''Previous Close: $'' @ py_str (dict_get data ''previous_close'' (PStr ''N/A'')) @ nl
         @ ''Day High: $'' @ py_str (dict_get data ''high'' (PStr ''N/A'')) @ nl
         @ ''Day Low: $'' @ py_str (dict_get data ''low'' (PStr ''N/A'')) @ nl
         @ ''Volume: '' @ py_str (dict_get data ''volume'' (PStr ''N/A'')) @ nl
         @ ''Exchange: '' @ py_str (dict_get data ''exchange'' (PStr ''N/A'')) @ nl
         @ ''Retrieved at: '' @ ts @ nl)"

text \<open>
  \<^verbatim>\<open>format_data(data, symbol, date=None)\<close>. The first argument \<open>ts\<close> is the
  \<^verbatim>\<open>datetime.now()\<close> stamp the function reads; \<^verbatim>\<open>if date\<close> is false of \<^verbatim>\<open>None\<close> and of
  the empty string. A value that is no dict has no \<^verbatim>\<open>get\<close>.
\<close>

fun format_data :: "string \<Rightarrow> pyval \<Rightarrow> string \<Rightarrow> string option \<Rightarrow> pyexc + string" where
  "format_data ts (PDict data) symbol date =
     (if date \<noteq> None \<and> date \<noteq> Some [] then Inr (historical_text ts data symbol (the date))
      else
        (case change_parts (dict_get data ''change'' (PInt 0))
                (dict_get data ''percent_change'' (PInt 0)) of
           Inl ex \<Rightarrow> Inl ex
         | Inr parts \<Rightarrow> Inr (current_text ts data symbol parts)))"
| "format_data ts v symbol date =
     Inl (Exc AttributeError (quoted (type_name v) @ '' object has no attribute '' @ quoted ''get''))"

section \<open>The request handler: \<^verbatim>\<open>server.py\<close>\<close>

subsection \<open>\<^verbatim>\<open>datetime.strptime(date, '%Y-%m-%d')\<close> and \<^verbatim>\<open>weekday()\<close>\<close>

text \<open>
  \<^verbatim>\<open>strptime\<close> matches the string against the regular expression
  \<^verbatim>\<open>(\d\d\d\d)-(1[0-2]|0[1-9]|[1-9])-(3[0-1]|[1-2]\d|0[1-9]|[1-9]| [1-9])\<close>, each group
  trying its alternatives from left to right, and refuses text left over after the match.
  So the month and the day may have one digit. It then builds the date, which fails for the
  year 0 and for a day the month does not have. Every failure is a \<^verbatim>\<open>ValueError\<close>:
  \<open>None\<close> here.
\<close>

definition starts1 :: "string \<Rightarrow> string \<Rightarrow> bool" where
  "starts1 first s = (case s of [] \<Rightarrow> False | a # r \<Rightarrow> a \<in> set first)"

definition starts2 :: "string \<Rightarrow> string \<Rightarrow> string \<Rightarrow> bool" where
  "starts2 first second s = (starts1 first s \<and> starts1 second (drop 1 s))"

definition match_year :: "string \<Rightarrow> (string \<times> string) option" where
  "match_year s =
     (if 4 \<le> length s \<and> list_all is_digit (take 4 s) \<and> starts1 ''-'' (drop 4 s)
      then Some (take 4 s, drop 5 s) else None)"

definition match_month :: "string \<Rightarrow> (string \<times> string) option" where
  "match_month s =
     (if starts2 ''1'' ''012'' s \<and> starts1 ''-'' (drop 2 s) then Some (take 2 s, drop 3 s)
      else if starts2 ''0'' ''123456789'' s \<and> starts1 ''-'' (drop 2 s) then Some (take 2 s, drop 3 s)
      else if starts1 ''123456789'' s \<and> starts1 ''-'' (drop 1 s) then Some (take 1 s, drop 2 s)
      else None)"

definition match_day :: "string \<Rightarrow> (string \<times> string) option" where
  "match_day s =
     (if starts2 ''3'' ''01'' s then Some (take 2 s, drop 2 s)
      else if starts2 ''12'' ''0123456789'' s then Some (take 2 s, drop 2 s)
      else if starts2 ''0'' ''123456789'' s then Some (take 2 s, drop 2 s)
      else if starts1 ''123456789'' s then Some (take 1 s, drop 1 s)
      else if starts2 '' '' ''123456789'' s then Some (take 2 s, drop 2 s)
      else None)"

text \<open>The calendar of \<^verbatim>\<open>datetime.date\<close>: the proleptic Gregorian one.\<close>

definition is_leap :: "int \<Rightarrow> bool" where
  "is_leap year = (year mod 4 = 0 \<and> (year mod 100 \<noteq> 0 \<or> year mod 400 = 0))"

definition days_in_month :: "int \<Rightarrow> int \<Rightarrow> int" where
  "days_in_month year month =
     (if month = 2 \<and> is_leap year then 29
      else [31, 28, 31, 30, 31, 30, 31, 31, 30, 31, 30, 31] ! nat (month - 1))"

definition days_before_year :: "int \<Rightarrow> int" where
  "days_before_year year =
     (let y = year - 1 in y * 365 + y div 4 - y div 100 + y div 400)"

definition days_before_month :: "int \<Rightarrow> int \<Rightarrow> int" where
  "days_before_month year month =
     [0, 31, 59, 90, 120, 151, 181, 212, 243, 273, 304, 334] ! nat (month - 1)
     + (if 2 < month \<and> is_leap year then 1 else 0)"

definition ymd2ord :: "int \<Rightarrow> int \<Rightarrow> int \<Rightarrow> int" where
  "ymd2ord year month day = days_before_year year + days_before_month year month + day"

text \<open>\<^verbatim>\<open>date.weekday()\<close>: Monday is 0, Saturday 5, Sunday 6.\<close>

definition weekday :: "int \<times> int \<times> int \<Rightarrow> int" where
  "weekday d = (case d of (year, month, day) \<Rightarrow> (ymd2ord year month day + 6) mod 7)"

definition strptime_ymd :: "string \<Rightarrow> (int \<times> int \<times> int) option" where
  "strptime_ymd s =
     (case match_year s of
        None \<Rightarrow> None
      | Some (ys, r1) \<Rightarrow>
          (case match_month r1 of
             None \<Rightarrow> None
           | Some (ms, r2) \<Rightarrow>
               (case match_day r2 of
                  None \<Rightarrow> None
                | Some (ds, r3) \<Rightarrow>
                    (let year = digits_val ys;
                         month = digits_val ms;
                         day = digits_val (filter is_digit ds)
                     in if r3 \<noteq> [] then None
                        else if year < 1 \<or> days_in_month year month < day then None
                        else Some (year, month, day)))))"

subsection \<open>The provider and the two handlers\<close>

text \<open>
  The provider's client is outside the repository: \<open>quote_json client s\<close> is the outcome of
  \<^verbatim>\<open>twelve_data_client.quote(symbol=s).as_json()\<close> and \<open>eod_json client s d\<close> that of
  \<^verbatim>\<open>twelve_data_client.eod(symbol=s, date=d).as_json()\<close>, either an exception or the decoded
  payload. Each handler returns the provider calls it made, in order, and its text. The
  lines written to \<^verbatim>\<open>stderr\<close> are not part of the model.
\<close>

record provider =
  quote_json :: "string \<Rightarrow> pyexc + pyval"
  eod_json :: "string \<Rightarrow> string \<Rightarrow> pyexc + pyval"

datatype provider_call = QuoteCall string | EodCall string string

text \<open>
  Lines 114 to 133: what the handler makes of the payload, inside the \<^verbatim>\<open>try\<close>. The
  membership tests, the subscripts and \<^verbatim>\<open>get\<close> raise on a payload that is no dict;
  \<open>bind_exc\<close> passes the first exception on, as the statements of a \<^verbatim>\<open>try\<close> body do.
\<close>

definition bind_exc :: "pyexc + 'a \<Rightarrow> ('a \<Rightarrow> pyexc + 'b) \<Rightarrow> pyexc + 'b" where
  "bind_exc r f = (case r of Inl ex \<Rightarrow> Inl ex | Inr x \<Rightarrow> f x)"

text \<open>\<^verbatim>\<open>k in v and test(v[k])\<close>, the second operand evaluated only when the first holds.\<close>

definition key_satisfies :: "pyval \<Rightarrow> string \<Rightarrow> (pyval \<Rightarrow> bool) \<Rightarrow> pyexc + bool" where
  "key_satisfies v k test =
     bind_exc (py_contains k v)
       (\<lambda>present. if present then bind_exc (py_getitem v k) (\<lambda>x. Inr (test x)) else Inr False)"

text \<open>\<^verbatim>\<open>k not in v or v[k] is None\<close>\<close>

definition key_missing_or_none :: "pyval \<Rightarrow> string \<Rightarrow> pyexc + bool" where
  "key_missing_or_none v k =
     bind_exc (py_contains k v)
       (\<lambda>present. if \<not> present then Inr True else bind_exc (py_getitem v k) (\<lambda>x. Inr (x = PNone)))"

text \<open>\<^verbatim>\<open>v.get(k, dflt)\<close> on any value.\<close>

definition py_get :: "pyval \<Rightarrow> string \<Rightarrow> pyval \<Rightarrow> pyexc + pyval" where
  "py_get v k dflt =
     (case v of
        PDict kvs \<Rightarrow> Inr (dict_get kvs k dflt)
      | _ \<Rightarrow> Inl (Exc AttributeError
                (quoted (type_name v) @ '' object has no attribute '' @ quoted ''get'')))"

definition classify_eod :: "string \<Rightarrow> pyval \<Rightarrow> string \<Rightarrow> string \<Rightarrow> pyexc + string" where
  "classify_eod ts eod_data symbol date =
     (if \<not> py_truthy eod_data then
        Inr (''Error: No EOD data returned for '' @ symbol @ '' on '' @ date)
      else
        bind_exc (key_satisfies eod_data ''status'' (\<lambda>v. py_eq_str v ''error''))
          (\<lambda>is_error.
             if is_error then
               bind_exc (py_get eod_data ''message'' (PStr ''Unknown API error''))
                 (\<lambda>error_msg. Inr (''API Error: '' @ py_str error_msg))
             else
               bind_exc (key_satisfies eod_data ''code'' (\<lambda>v. py_eq_int v 400))
                 (\<lambda>is_400.
                    if is_400 then
                      bind_exc (py_get eod_data ''message'' (PStr ''No data available for this date''))
                        (\<lambda>error_msg. Inr (''No data available: '' @ py_str error_msg))
                    else
                      bind_exc (key_missing_or_none eod_data ''close'')
                        (\<lambda>no_close.
                           if no_close then
                             Inr (''No closing price data available for '' @ symbol @ '' on '' @ date
                                  @ ''. Markets may have been closed.'')
                           else format_data ts eod_data (str_upper symbol) (Some date)))))"

text \<open>\<^verbatim>\<open>_fetch_current_stock_price\<close>, lines 52 to 78.\<close>

definition fetch_current_stock_price :: "provider \<Rightarrow> string \<Rightarrow> string \<Rightarrow> provider_call list \<times> string" where
  "fetch_current_stock_price client ts symbol =
     ([QuoteCall (str_upper symbol)],
      (case bind_exc (quote_json client (str_upper symbol))
              (\<lambda>quote_data. format_data ts quote_data (str_upper symbol) None) of
         Inl ex \<Rightarrow> ''Error: '' @ ''Error fetching stock data for '' @ symbol @ '': '' @ exc_str ex
       | Inr text \<Rightarrow> text))"

text \<open>\<^verbatim>\<open>_fetch_historical_stock_price\<close>, lines 81 to 139.\<close>

definition fetch_historical_stock_price :: "provider \<Rightarrow> string \<Rightarrow> string \<Rightarrow> string \<Rightarrow> provider_call list \<times> string" where
  "fetch_historical_stock_price client ts symbol date =
     (case strptime_ymd date of
        None \<Rightarrow> ([], ''Error: Invalid date format '' @ quoted date @ ''. Use YYYY-MM-DD'')
      | Some date_obj \<Rightarrow>
          if 5 \<le> weekday date_obj then
            ([], ''Warning: '' @ date
                 @ '' is a weekend. Stock markets are typically closed. Try a weekday date.'')
          else
            ([EodCall (str_upper symbol) date],
             (case bind_exc (eod_json client (str_upper symbol) date)
                     (\<lambda>eod_data. classify_eod ts eod_data symbol date) of
                Inl ex \<Rightarrow>
                  ''Error: '' @ ''Error fetching EOD data for '' @ symbol @ '' on '' @ date @ '': ''
                  @ exc_str ex
              | Inr text \<Rightarrow> text)))"

section \<open>Sample inputs, and the wording of the specification\<close>

text \<open>A time stamp, a provider whose calls all fail, and one that answers every call with \<open>p\<close>.\<close>

definition sample_ts :: string where
  "sample_ts = ''2024-01-15 10:30:00''"

definition failing_provider :: provider where
  "failing_provider =
     \<lparr>quote_json = (\<lambda>s. Inl (Exc OtherError ''connection refused'')),
      eod_json = (\<lambda>s d. Inl (Exc OtherError ''connection refused''))\<rparr>"

definition constant_provider :: "pyval \<Rightarrow> provider" where
  "constant_provider p = \<lparr>quote_json = (\<lambda>s. Inr p), eod_json = (\<lambda>s d. Inr p)\<rparr>"

text \<open>
  The two payloads of the specification's examples,
  \<^verbatim>\<open>{close: 150.25, change: 2.5, percent_change: 1.69}\<close> and
  \<^verbatim>\<open>{close: -1.0, change: -3.2, percent_change: -2.1}\<close>, with each number as the double
  Python reads the literal as (lemma \<open>example_doubles\<close> below).
\<close>

definition example_up :: "(string \<times> pyval) list" where
  "example_up =
     [(''close'', PFloat (Fin False 5286451906347008 (- 45))),
      (''change'', PFloat (Fin False 5629499534213120 (- 51))),
      (''percent_change'', PFloat (Fin False 7611083370256138 (- 52)))]"

definition example_down :: "(string \<times> pyval) list" where
  "example_down =
     [(''close'', PFloat (Fin True 4503599627370496 (- 52))),
      (''change'', PFloat (Fin True 7205759403792794 (- 51))),
      (''percent_change'', PFloat (Fin True 4728779608739021 (- 51)))]"


text \<open>An end-of-day payload that carries both error markers.\<close>

definition error_and_400 :: "(string \<times> pyval) list" where
  "error_and_400 =
     [(''status'', PStr ''error''), (''code'', PInt 400), (''message'', PStr ''Invalid symbol'')]"


text \<open>
  The block the specification promises for a payload without numeric fields, every value
  the placeholder. This follows the specification, not the code.
\<close>

definition spec_all_placeholders :: "string \<Rightarrow> string \<Rightarrow> string" where
  "spec_all_placeholders ts symbol = current_text ts [] symbol ([], ''N/A'', ''N/A'')"

section \<open>Facts about the Python operations\<close>



lemma py_eq_str_iff: "py_eq_str v s \<longleftrightarrow> v = PStr s"
  by (cases v) auto

lemma example_doubles:
  "map float_of_str [''150.25'', ''2.5'', ''1.69'', ''-1.0'', ''-3.2'', ''-2.1''] =
     [Some (Fin False 5286451906347008 (- 45)), Some (Fin False 5629499534213120 (- 51)),
      Some (Fin False 7611083370256138 (- 52)), Some (Fin True 4503599627370496 (- 52)),
      Some (Fin True 7205759403792794 (- 51)), Some (Fin True 4728779608739021 (- 51))]"
  by code_simp

subsection \<open>An int of 1025 bits or more does not convert to a float\<close>

lemma bit_length_nonneg: "0 \<le> bit_length n"
  by (induction n rule: bit_length.induct) (simp add: bit_length.simps)

lemma bit_length_pos: "0 < n \<Longrightarrow> 0 < bit_length n"
  using bit_length_nonneg [of "n div 2"] by (subst bit_length.simps) simp

lemma bit_length_lower: "0 < n \<Longrightarrow> 2 ^ nat (bit_length n - 1) \<le> n"
proof (induction n rule: bit_length.induct)
  case (1 n)
  show ?case
  proof (cases "n div 2 = 0")
    case True
    with "1.prems" have "n = 1" by presburger
    then show ?thesis by (simp add: bit_length.simps)
  next
    case False
    with "1.prems" have h: "0 < n div 2" by presburger
    from "1.IH" "1.prems" h have ih: "2 ^ nat (bit_length (n div 2) - 1) \<le> n div 2" by simp
    have bl: "bit_length n = 1 + bit_length (n div 2)"
      using "1.prems" by (subst bit_length.simps) simp
    from bit_length_pos [OF h] have "nat (bit_length (n div 2)) = Suc (nat (bit_length (n div 2) - 1))"
      by simp
    then have "(2::int) ^ nat (bit_length (n div 2)) = 2 * 2 ^ nat (bit_length (n div 2) - 1)"
      by simp
    also have "\<dots> \<le> 2 * (n div 2)" using ih by simp
    also have "\<dots> \<le> n" by presburger
    finally show ?thesis by (simp add: bl)
  qed
qed

lemma bit_length_above: "2 ^ k \<le> n \<Longrightarrow> int k < bit_length n"
proof (induction k arbitrary: n)
  case 0
  then show ?case using bit_length_pos [of n] by simp
next
  case (Suc k)
  then have "2 ^ k \<le> n div 2" by simp
  from Suc.IH [OF this] have "int k < bit_length (n div 2)" .
  moreover have "(0::int) < 2 ^ Suc k" by simp
  with Suc.prems have "0 < n" by linarith
  ultimately show ?case by (subst bit_length.simps) simp
qed

lemma nearest_double_overflow:
  assumes "2 ^ 1024 \<le> n"
  shows "nearest_double n 1 = None"
proof -
  have "(0::int) < 2 ^ 1024" by simp
  with assms have pos: "0 < n" by linarith
  have b: "1024 < bit_length n" using bit_length_above [OF assms] by simp
  have one: "bit_length 1 = 1" by (simp add: bit_length.simps)
  have le: "2 ^ nat (bit_length n - 1) \<le> n" by (rule bit_length_lower [OF pos])
  show ?thesis
    using pos b le by (simp add: nearest_double_def one Let_def)
qed

lemma float_of_int_overflow:
  "2 ^ 1024 \<le> \<bar>i\<bar> \<Longrightarrow>
     float_of_int i = Inl (Exc OverflowError ''int too large to convert to float'')"
  by (simp add: float_of_int_def nearest_double_overflow)

section \<open>Properties of the formatter\<close>

lemma na_not_float: "float_of_str ''N/A'' = None"
  by code_simp

text \<open>A value that converts to a float passes the guard of line 53.\<close>

lemma py_float_guard:
  assumes "py_float v = Inr f"
  shows "is_str_int_float v \<and> \<not> py_eq_str v ''N/A''"
  using assms by (cases v) (auto simp: na_not_float)

lemma zero_parts: "change_parts (PInt 0) (PInt 0) = Inr (up_glyph, ''+0.00'', ''+0.00%'')"
  by code_simp



text \<open>
  The gate of lines 55 to 63: when \<^verbatim>\<open>float(change)\<close> succeeds and
  \<^verbatim>\<open>float(percent_change)\<close> raises \<^verbatim>\<open>ValueError\<close> or \<^verbatim>\<open>TypeError\<close>, both numbers are
  rendered with \<^verbatim>\<open>str\<close> and the direction is empty.
\<close>

lemma percent_gates_change:
  assumes "py_float change = Inr change_val" and "py_float percent_change = Inl ex"
    and "exc_kind_of ex = ValueError \<or> exc_kind_of ex = TypeError"
  shows "change_parts change percent_change = Inr ([], py_str change, py_str percent_change)"
  using assms py_float_guard [OF assms(1)] by (auto simp: change_parts_def on_conversion_error_def)

text \<open>
  \<^verbatim>\<open>OverflowError\<close> is not among the exceptions the handler of line 60 catches, so an
  int beyond the range of doubles in either field makes \<^verbatim>\<open>format_data\<close> raise.
\<close>

lemma change_overflow:
  assumes "dict_get data ''change'' (PInt 0) = PInt i" and "2 ^ 1024 \<le> \<bar>i\<bar>"
  shows "format_data ts (PDict data) symbol None =
     Inl (Exc OverflowError ''int too large to convert to float'')"
  using assms by (simp add: change_parts_def on_conversion_error_def float_of_int_overflow)

lemma percent_change_overflow:
  assumes "py_float (dict_get data ''change'' (PInt 0)) = Inr change_val"
    and "dict_get data ''percent_change'' (PInt 0) = PInt i" and "2 ^ 1024 \<le> \<bar>i\<bar>"
  shows "format_data ts (PDict data) symbol None =
     Inl (Exc OverflowError ''int too large to convert to float'')"
  using assms py_float_guard [OF assms(1)]
  by (simp add: change_parts_def on_conversion_error_def float_of_int_overflow)

text \<open>
  Claim C4 says that \<^verbatim>\<open>format_data\<close> never raises, whatever the payload dictionary holds.
  The code raises on the payload \<^verbatim>\<open>{'change': 10**400}\<close>: \<^verbatim>\<open>float(change)\<close> raises
  \<^verbatim>\<open>OverflowError\<close>, which the \<^verbatim>\<open>except (ValueError, TypeError)\<close> of line 60 lets through.
\<close>

theorem formatter_overflow:
  "format_data ts (PDict [(''change'', PInt (10 ^ 400))]) symbol None =
     Inl (Exc OverflowError ''int too large to convert to float'')"
  by (rule change_overflow [where i = "10 ^ 400"]) (simp_all add: dict_get_def)

text \<open>
  Claim C5, as amended. In current-price mode, for a payload with none of the keys
  \<^verbatim>\<open>close\<close>, \<^verbatim>\<open>price\<close>, \<^verbatim>\<open>change\<close>, \<^verbatim>\<open>percent_change\<close>, \<^verbatim>\<open>previous_close\<close>, \<^verbatim>\<open>high\<close>,
  \<^verbatim>\<open>low\<close>, \<^verbatim>\<open>volume\<close>, the formatter raises nothing and returns the block in which price,
  previous close, day high, day low and volume are \<^verbatim>\<open>N/A\<close>, while the change line, whose
  two numbers default to 0, reads \<^verbatim>\<open>Change: +0.00 (+0.00%)\<close> with the up-glyph.
\<close>

theorem missing_numeric_fields:
  assumes "\<forall>k \<in> set [''close'', ''price'', ''change'', ''percent_change'', ''previous_close'',
                     ''high'', ''low'', ''volume'']. map_of data k = None"
  shows "format_data ts (PDict data) symbol None =
     Inr (''Stock Price Data: '' @ symbol @ nl
          @ separator @ nl
          @ ''Current Price: $N/A'' @ nl
          @ ''Change: +0.00 (+0.00%) '' @ up_glyph @ nl
          @ ''Previous Close: $N/A'' @ nl
          @ ''Day High: $N/A'' @ nl
          @ ''Day Low: $N/A'' @ nl
          @ ''Volume: N/A'' @ nl
          @ ''Exchange: '' @ py_str (dict_get data ''exchange'' (PStr ''N/A'')) @ nl
          @ ''Retrieved at: '' @ ts @ nl)"
proof -
  have g: "dict_get data ''change'' (PInt 0) = PInt 0"
    "dict_get data ''percent_change'' (PInt 0) = PInt 0"
    "dict_get data ''close'' (dict_get data ''price'' (PStr ''N/A'')) = PStr ''N/A''"
    "dict_get data ''previous_close'' (PStr ''N/A'') = PStr ''N/A''"
    "dict_get data ''high'' (PStr ''N/A'') = PStr ''N/A''"
    "dict_get data ''low'' (PStr ''N/A'') = PStr ''N/A''"
    "dict_get data ''volume'' (PStr ''N/A'') = PStr ''N/A''"
    using assms by (simp_all add: dict_get_def)
  show ?thesis
    by (simp add: g zero_parts current_text_def change_line_def py_str_def Let_def)
qed

theorem missing_numeric_fields_witness:
  "list_all (\<lambda>k. map_of [(''exchange'', PStr ''NASDAQ'')] k = None)
     [''close'', ''price'', ''change'', ''percent_change'', ''previous_close'',
      ''high'', ''low'', ''volume'']
   \<and> format_data sample_ts (PDict [(''exchange'', PStr ''NASDAQ'')]) ''AAPL'' None =
     Inr (''Stock Price Data: AAPL'' @ nl
          @ separator @ nl
          @ ''Current Price: $N/A'' @ nl
          @ ''Change: +0.00 (+0.00%) '' @ up_glyph @ nl
          @ ''Previous Close: $N/A'' @ nl
          @ ''Day High: $N/A'' @ nl
          @ ''Day Low: $N/A'' @ nl
          @ ''Volume: N/A'' @ nl
          @ ''Exchange: NASDAQ'' @ nl
          @ ''Retrieved at: 2024-01-15 10:30:00'' @ nl)"
proof -
  have h: "\<forall>k \<in> set [''close'', ''price'', ''change'', ''percent_change'', ''previous_close'',
                     ''high'', ''low'', ''volume'']. map_of [(''exchange'', PStr ''NASDAQ'')] k = None"
    by simp
  have e: "py_str (dict_get [(''exchange'', PStr ''NASDAQ'')] ''exchange'' (PStr ''N/A'')) = ''NASDAQ''"
    by code_simp
  from missing_numeric_fields [OF h, of sample_ts "''AAPL''"] h
  show ?thesis by (simp add: e sample_ts_def)
qed

text \<open>
  Claim C5 as stated fails: on the empty payload the change line is not made of
  placeholders, it reads \<^verbatim>\<open>+0.00 (+0.00%)\<close> with the up-glyph.
\<close>

theorem all_placeholders_counterexample:
  "format_data sample_ts (PDict []) ''AAPL'' None =
     Inr (current_text sample_ts [] ''AAPL'' (up_glyph, ''+0.00'', ''+0.00%''))
   \<and> format_data sample_ts (PDict []) ''AAPL'' None \<noteq> Inr (spec_all_placeholders sample_ts ''AAPL'')"
  by code_simp



text \<open>The second example: \<^verbatim>\<open>Change: -3.20 (-2.10%)\<close> and the down-glyph.\<close>

lemma change_rendering_down_example:
  "format_data sample_ts (PDict example_down) ''AAPL'' None =
       Inr (current_text sample_ts example_down ''AAPL'' (down_glyph, ''-3.20'', ''-2.10%''))
   \<and> change_line (down_glyph, ''-3.20'', ''-2.10%'') = ''Change: -3.20 (-2.10%) '' @ down_glyph"
  by code_simp

text \<open>The whole block of the first example.\<close>

lemma example_up_text:
  "format_data sample_ts (PDict example_up) ''AAPL'' None =
     Inr (''Stock Price Data: AAPL'' @ nl
          @ separator @ nl
          @ ''Current Price: $150.25'' @ nl
          @ ''Change: +2.50 (+1.69%) '' @ up_glyph @ nl
          @ ''Previous Close: $N/A'' @ nl
          @ ''Day High: $N/A'' @ nl
          @ ''Day Low: $N/A'' @ nl
          @ ''Volume: N/A'' @ nl
          @ ''Exchange: N/A'' @ nl
          @ ''Retrieved at: 2024-01-15 10:30:00'' @ nl)"
  by code_simp





text \<open>
  Claim C10 says that whenever \<^verbatim>\<open>change\<close> converts to a float and \<^verbatim>\<open>percent_change\<close> does
  not, both are rendered as their raw strings and the direction is empty. That is what the
  code does when the conversion raises \<^verbatim>\<open>ValueError\<close> or \<^verbatim>\<open>TypeError\<close> (lemma
  \<open>percent_gates_change\<close>). On the payload \<^verbatim>\<open>{'change': 2.5, 'percent_change': 10**400}\<close>
  the conversion raises \<^verbatim>\<open>OverflowError\<close>, and \<^verbatim>\<open>format_data\<close> raises instead of rendering.
\<close>

theorem percent_overflow:
  "py_float (PFloat (Fin False 5629499534213120 (- 51))) = Inr (Fin False 5629499534213120 (- 51))
   \<and> py_float (PInt (10 ^ 400)) = Inl (Exc OverflowError ''int too large to convert to float'')
   \<and> format_data ts
        (PDict [(''change'', PFloat (Fin False 5629499534213120 (- 51))),
                (''percent_change'', PInt (10 ^ 400))])
        symbol None =
     Inl (Exc OverflowError ''int too large to convert to float'')"
proof -
  have o: "py_float (PInt (10 ^ 400)) = Inl (Exc OverflowError ''int too large to convert to float'')"
    using float_of_int_overflow [of "10 ^ 400"] by simp
  have f: "format_data ts
        (PDict [(''change'', PFloat (Fin False 5629499534213120 (- 51))),
                (''percent_change'', PInt (10 ^ 400))])
        symbol None = Inl (Exc OverflowError ''int too large to convert to float'')"
    by (rule percent_change_overflow
          [where i = "10 ^ 400" and change_val = "Fin False 5629499534213120 (- 51)"])
       (simp_all add: dict_get_def)
  show ?thesis using o f by simp
qed

section \<open>Properties of the request handler\<close>

lemma strptime_nonempty: "strptime_ymd date = Some d \<Longrightarrow> date \<noteq> []"
  by (auto simp: strptime_ymd_def match_year_def split: option.splits if_splits)

lemma classify_eod_dict:
  assumes "kvs \<noteq> []" and "date \<noteq> []"
  shows "classify_eod ts (PDict kvs) symbol date =
     Inr (if map_of kvs ''status'' = Some (PStr ''error'')
            then ''API Error: '' @ py_str (dict_get kvs ''message'' (PStr ''Unknown API error''))
          else if (case map_of kvs ''code'' of Some v \<Rightarrow> py_eq_int v 400 | None \<Rightarrow> False)
            then ''No data available: ''
                 @ py_str (dict_get kvs ''message'' (PStr ''No data available for this date''))
          else if map_of kvs ''close'' = None \<or> map_of kvs ''close'' = Some PNone
            then ''No closing price data available for '' @ symbol @ '' on '' @ date
                 @ ''. Markets may have been closed.''
          else historical_text ts kvs (str_upper symbol) date)"
  using assms
  by (auto simp: classify_eod_def bind_exc_def key_satisfies_def key_missing_or_none_def py_get_def
      py_eq_str_iff split: option.splits)

text \<open>
  Claim C1. On a weekday date that parses, for every payload that is a dictionary or is
  falsy, the historical handler calls the provider once and classifies the payload in this
  order: (a) falsy: \<^verbatim>\<open>Error: No EOD data returned for <symbol> on <date>\<close>; (b) \<^verbatim>\<open>status\<close>
  equal to \<^verbatim>\<open>error\<close>: \<^verbatim>\<open>API Error: <message>\<close>, the message \<^verbatim>\<open>Unknown API error\<close> when
  absent; (c) \<^verbatim>\<open>code\<close> equal to 400: \<^verbatim>\<open>No data available: <message>\<close>, the message
  \<^verbatim>\<open>No data available for this date\<close> when absent; (d) \<^verbatim>\<open>close\<close> missing or null:
  \<^verbatim>\<open>No closing price data available for <symbol> on <date>. Markets may have been closed.\<close>;
  (e) otherwise the formatter's historical block. A payload with both markers falls under
  (b), which is tested first.
\<close>

theorem eod_classification:
  assumes "strptime_ymd date = Some date_obj" and "weekday date_obj < 5"
    and "eod_json client (str_upper symbol) date = Inr payload"
    and "payload = PDict kvs \<or> \<not> py_truthy payload"
  shows "fetch_historical_stock_price client ts symbol date =
     ([EodCall (str_upper symbol) date],
      if \<not> py_truthy payload
        then ''Error: No EOD data returned for '' @ symbol @ '' on '' @ date
      else if map_of kvs ''status'' = Some (PStr ''error'')
        then ''API Error: '' @ py_str (dict_get kvs ''message'' (PStr ''Unknown API error''))
      else if (case map_of kvs ''code'' of Some v \<Rightarrow> py_eq_int v 400 | None \<Rightarrow> False)
        then ''No data available: ''
             @ py_str (dict_get kvs ''message'' (PStr ''No data available for this date''))
      else if map_of kvs ''close'' = None \<or> map_of kvs ''close'' = Some PNone
        then ''No closing price data available for '' @ symbol @ '' on '' @ date
             @ ''. Markets may have been closed.''
      else historical_text ts kvs (str_upper symbol) date)
    \<and> format_data ts (PDict kvs) (str_upper symbol) (Some date) =
        Inr (historical_text ts kvs (str_upper symbol) date)"
proof -
  have ne: "date \<noteq> []" using assms(1) by (rule strptime_nonempty)
  have head: "fetch_historical_stock_price client ts symbol date =
      ([EodCall (str_upper symbol) date],
       case classify_eod ts payload symbol date of
         Inl ex \<Rightarrow> ''Error: '' @ ''Error fetching EOD data for '' @ symbol @ '' on '' @ date
                   @ '': '' @ exc_str ex
       | Inr text \<Rightarrow> text)"
    using assms(1-3) by (simp add: fetch_historical_stock_price_def bind_exc_def)
  show ?thesis
  proof (cases "py_truthy payload")
    case False
    then show ?thesis using head ne by (simp add: classify_eod_def)
  next
    case True
    with assms(4) have p: "payload = PDict kvs" and k: "kvs \<noteq> []" by auto
    show ?thesis unfolding head p classify_eod_dict [OF k ne] using k ne by simp
  qed
qed

text \<open>A payload with both markers, on Monday 15 January 2024, is an API error.\<close>

theorem eod_classification_witness:
  "strptime_ymd ''2024-01-15'' = Some (2024, 1, 15) \<and> weekday (2024, 1, 15) < 5
   \<and> eod_json (constant_provider (PDict error_and_400)) (str_upper ''aapl'') ''2024-01-15'' =
       Inr (PDict error_and_400)
   \<and> fetch_historical_stock_price (constant_provider (PDict error_and_400)) sample_ts ''aapl''
       ''2024-01-15'' =
       ([EodCall ''AAPL'' ''2024-01-15''], ''API Error: Invalid symbol'')"
proof -
  have p: "strptime_ymd ''2024-01-15'' = Some (2024, 1, 15)" by code_simp
  have w: "weekday (2024, 1, 15) < 5" by code_simp
  have q: "eod_json (constant_provider (PDict error_and_400)) (str_upper ''aapl'') ''2024-01-15'' =
      Inr (PDict error_and_400)"
    by (simp add: constant_provider_def)
  have u: "str_upper ''aapl'' = ''AAPL''" by code_simp
  have t: "error_and_400 \<noteq> []" by (simp add: error_and_400_def)
  have s: "map_of error_and_400 ''status'' = Some (PStr ''error'')" by code_simp
  have m: "py_str (dict_get error_and_400 ''message'' (PStr ''Unknown API error'')) = ''Invalid symbol''"
    by code_simp
  from eod_classification [OF p w q disjI1 [OF refl], of sample_ts] p w q
  show ?thesis by (simp add: u t s m)
qed

text \<open>The specification's two examples of error-shaped payloads.\<close>

lemma api_error_example:
  "fetch_historical_stock_price
     (constant_provider (PDict [(''status'', PStr ''error''), (''message'', PStr ''Invalid symbol'')]))
     sample_ts ''aapl'' ''2024-01-15'' =
       ([EodCall ''AAPL'' ''2024-01-15''], ''API Error: Invalid symbol'')"
  by code_simp

lemma code_400_example:
  "fetch_historical_stock_price (constant_provider (PDict [(''code'', PInt 400)])) sample_ts ''aapl''
     ''2024-01-15'' =
       ([EodCall ''AAPL'' ''2024-01-15''], ''No data available: No data available for this date'')"
  by code_simp

text \<open>
  A truthy payload that is no dictionary is outside the classification: the membership
  test raises, and the handler of line 135 reports it.
\<close>

lemma non_dict_payload_example:
  "fetch_historical_stock_price (constant_provider (PInt 5)) sample_ts ''aapl'' ''2024-01-15'' =
       ([EodCall ''AAPL'' ''2024-01-15''],
        ''Error: Error fetching EOD data for aapl on 2024-01-15: argument of type ''
         @ [CHR 0x27] @ ''int'' @ [CHR 0x27] @ '' is not iterable'')"
  by code_simp




text \<open>
  Claim C3. For every date string that parses and whose weekday is Saturday (5) or Sunday (6),
  the historical handler returns exactly
  \<^verbatim>\<open>Warning: <date> is a weekend. Stock markets are typically closed. Try a weekday date.\<close>
  and makes no provider call.
\<close>

theorem weekend_warning:
  assumes "strptime_ymd date = Some date_obj"
    and "weekday date_obj = 5 \<or> weekday date_obj = 6"
  shows "fetch_historical_stock_price client ts symbol date =
    ([], ''Warning: '' @ date
         @ '' is a weekend. Stock markets are typically closed. Try a weekday date.'')"
  using assms by (auto simp: fetch_historical_stock_price_def)

theorem weekend_warning_witness:
  "strptime_ymd ''2024-01-13'' = Some (2024, 1, 13) \<and> weekday (2024, 1, 13) = 5
   \<and> fetch_historical_stock_price failing_provider sample_ts ''AAPL'' ''2024-01-13'' =
       ([], ''Warning: 2024-01-13 is a weekend. Stock markets are typically closed. Try a weekday date.'')"
proof -
  have p: "strptime_ymd ''2024-01-13'' = Some (2024, 1, 13)" by code_simp
  have w: "weekday (2024, 1, 13) = 5" by code_simp
  from weekend_warning [OF p disjI1 [OF w], of failing_provider sample_ts "''AAPL''"] p w
  show ?thesis by simp
qed

text \<open>Sunday 14 January 2024 as well.\<close>

lemma sunday_example:
  "fetch_historical_stock_price failing_provider sample_ts ''AAPL'' ''2024-01-14'' =
       ([], ''Warning: 2024-01-14 is a weekend. Stock markets are typically closed. Try a weekday date.'')"
  by code_simp

text \<open>
  Claim C8. Whenever the provider's quote call raises, the current-price handler returns
  \<^verbatim>\<open>Error: Error fetching stock data for <symbol>: <error text>\<close>: a string that starts
  with \<^verbatim>\<open>Error: \<close> and holds the symbol as it was passed and the text of the exception.
  The handler's result is a string in every case, so nothing is raised past it.
\<close>

theorem provider_failure_reported:
  assumes "quote_json client (str_upper symbol) = Inl ex"
  shows "fetch_current_stock_price client ts symbol =
    ([QuoteCall (str_upper symbol)],
     ''Error: '' @ ''Error fetching stock data for '' @ symbol @ '': '' @ exc_str ex)"
  using assms by (simp add: fetch_current_stock_price_def bind_exc_def)

theorem provider_failure_reported_witness:
  "quote_json failing_provider (str_upper ''aapl'') = Inl (Exc OtherError ''connection refused'')
   \<and> fetch_current_stock_price failing_provider sample_ts ''aapl'' =
       ([QuoteCall ''AAPL''], ''Error: Error fetching stock data for aapl: connection refused'')"
proof -
  have q: "quote_json failing_provider (str_upper ''aapl'') = Inl (Exc OtherError ''connection refused'')"
    by (simp add: failing_provider_def)
  have u: "str_upper ''aapl'' = ''AAPL''" by code_simp
  from provider_failure_reported [OF q, of sample_ts] q u show ?thesis by simp
qed

text \<open>
  A payload the formatter raises on is reported in the same way: here a list, which has
  no \<^verbatim>\<open>get\<close>.
\<close>

lemma malformed_payload_example:
  "fetch_current_stock_price (constant_provider (PList [])) sample_ts ''aapl'' =
       ([QuoteCall ''AAPL''],
        ''Error: Error fetching stock data for aapl: '' @ [CHR 0x27] @ ''list'' @ [CHR 0x27]
        @ '' object has no attribute '' @ [CHR 0x27] @ ''get'' @ [CHR 0x27])"
  by code_simp




end
